theory Spec2Isabelle
  imports Main "HOL-Library.Word"
begin

section \<open>JavaScript values used by \<open>regulatory.js\<close>\<close>

text \<open>
  A JavaScript string is a sequence of UTF-16 code units and \<open>s.length\<close> counts them;
  a \<open>Buffer\<close> is a sequence of bytes. \<open>str\<close> embeds an ASCII literal of the
  source.
\<close>

type_synonym jschar = "16 word"
type_synonym jsstring = "jschar list"
type_synonym byte = "8 word"

definition str :: "string \<Rightarrow> jsstring" where
  "str s = map of_char s"

text \<open>
  The values that flow through the message builder: strings and numbers. \<open>JNumber n\<close>
  stands for the JavaScript number \<open>n\<close>, a non-negative integer up to
  \<open>Number.MAX_SAFE_INTEGER\<close>, whose \<open>toString()\<close> is its decimal numeral
  (\<open>digits_of\<close>). Other kinds of JavaScript values (null, booleans, objects,
  negative or fractional numbers) are outside the model; an absent value
  (\<open>undefined\<close>) is \<open>None\<close> of an option type where the code can meet one.
\<close>

datatype jsval = JString jsstring | JNumber nat

function digits_of :: "nat \<Rightarrow> jsstring" where
  "digits_of n =
     (if n < 10 then [of_nat (48 + n)]
      else digits_of (n div 10) @ [of_nat (48 + n mod 10)])"
  by pat_completeness auto
termination
  by (relation "measure id") auto

declare digits_of.simps [simp del]

fun toString :: "jsval \<Rightarrow> jsstring" where
  "toString (JString s) = s"
| "toString (JNumber n) = digits_of n"

text \<open>Truthiness: the empty string and the number 0 are falsy.\<close>

fun truthy :: "jsval \<Rightarrow> bool" where
  "truthy (JString s) = (s \<noteq> [])"
| "truthy (JNumber n) = (n \<noteq> 0)"

text \<open>\<open>Array(n).join(sep)\<close>: \<open>n\<close> empty slots joined by \<open>sep\<close>, that is
  \<open>n - 1\<close> copies of \<open>sep\<close>.\<close>

definition array_join :: "nat \<Rightarrow> jsstring \<Rightarrow> jsstring" where
  "array_join n sep = concat (replicate (n - 1) sep)"

text \<open>The regular expression \<open>/^\d+$/\<close>: one or more ASCII digits and nothing else.\<close>

definition is_digit :: "jschar \<Rightarrow> bool" where
  "is_digit c = (48 \<le> c \<and> c \<le> 57)"

definition digits_only :: "jsstring \<Rightarrow> bool" where
  "digits_only s = (s \<noteq> [] \<and> list_all is_digit s)"

section \<open>\<open>padString\<close>\<close>

text \<open>
  \<^verbatim>\<open>
  function padString(string, width, spacer) {
    spacer = spacer ? spacer.slice(0, 1) : '0';
    string = string.toString();
    if (string.length === width) { return string; }
    if (string.length > width) { return string.substr(string.length - width); }
    return Array(width + 1 - string.length).join(spacer) + string;
  }
  \<close>
  The width is a non-negative integer (the source passes 20, 8 and 10); the spacer is a
  string or absent.
\<close>

definition padString :: "jsval \<Rightarrow> nat \<Rightarrow> jsstring option \<Rightarrow> jsstring" where
  "padString string width spacer =
     (let spacer' = (case spacer of
                       None \<Rightarrow> str ''0''
                     | Some sp \<Rightarrow> if sp \<noteq> [] then take 1 sp else str ''0'');
          string' = toString string
      in if length string' = width then string'
         else if length string' > width then drop (length string' - width) string'
         else array_join (width + 1 - length string') spacer' @ string')"

section \<open>Schemas, parameter sets and errors\<close>

text \<open>
  The schema table \<open>api.request\<close> comes from the module \<open>regulatory-description\<close>,
  which the builder only reads; its own property names are the function codes. A schema is
  an array whose entries are either a key
  descriptor (an object with \<open>key\<close>, \<open>required\<close>, \<open>default\<close>, \<open>type\<close>
  and \<open>length\<close>) or an array of key descriptors (\<open>key instanceof Array\<close>).
  \<open>type_k\<close> records whether \<open>keyObject.type === String\<close> holds, \<open>required\<close>
  the truthiness of \<open>keyObject.required\<close>, \<open>default_k = None\<close> a descriptor
  without a default.
\<close>

datatype keyType = TypeString | TypeOther

record keyObject =
  key :: jsstring
  required :: bool
  default_k :: "jsval option"
  type_k :: keyType
  length_k :: nat

datatype entry = Scalar keyObject | Group "keyObject list"

text \<open>
  An object of the parameter set maps its own property names to values. The parameter set
  itself has its scalar properties \<open>own\<close> and the member \<open>list\<close>; the name
  \<open>list\<close> is not used as a scalar key. The member is absent (\<open>None\<close>), or an
  array of objects, or a value that cannot be iterated (a number, a boolean, null, an
  object without an iterator); a string, which JavaScript iterates by characters, is
  outside the model.
\<close>

type_synonym jsobject = "jsstring \<rightharpoonup> jsval"

datatype listMember = Array "jsobject list" | NotIterable

record paramsList =
  own :: jsobject
  list :: "listMember option"

text \<open>
  What the code throws: an \<open>Error\<close> with its message, or the \<open>TypeError\<close> that
  the runtime raises when a \<open>for ... of\<close> loop is given a value it cannot iterate and
  when a value that is not a function is called. The three messages of \<open>extract\<close> are
  written in the source between single quotes, so the text \<open>${...}\<close> is part of the
  message and nothing is interpolated.
\<close>

datatype error = Error jsstring | TypeError

definition invalid_function_code_message :: jsstring where
  "invalid_function_code_message = str ''[PINGAN] Pingan Invalid Function Code''"

definition missing_key_message :: jsstring where
  "missing_key_message =
     str ''[PINGAN] Missing key ${keyObject.key} for function '' @
     str ''${self._functionCode}''"

definition incorrect_format_message :: jsstring where
  "incorrect_format_message =
     str ''[PINGAN] Incorrect key ${keyObject.key} format for '' @
     str ''function ${self._functionCode}''"

definition overflow_message :: jsstring where
  "overflow_message =
     str ''[PINGAN] Key ${keyObject.key} overflow for function '' @
     str ''${self._functionCode}''"

section \<open>The message body\<close>

text \<open>\<open>value.length > keyObject.length\<close>: a number has no \<open>length\<close>, and
  \<open>undefined > n\<close> is false.\<close>

fun length_exceeds :: "jsval \<Rightarrow> nat \<Rightarrow> bool" where
  "length_exceeds (JString s) n = (length s > n)"
| "length_exceeds (JNumber k) n = False"

text \<open>
  \<^verbatim>\<open>
  let extract = (keyObject, dataObject) => {
    if (keyObject.required && !dataObject.hasOwnProperty(keyObject.key)) {
      throw new Error('[PINGAN] Missing key ${keyObject.key} for function ' +
                      '${self._functionCode}');
    }
    if (!dataObject.hasOwnProperty(keyObject.key)) {
      return keyObject.default || '';
    }
    let value = dataObject[keyObject.key];
    if (keyObject.type === String && !/^\d+$/.test(value)) {
      throw new Error('[PINGAN] Incorrect key ${keyObject.key} format for ' +
                      'function ${self._functionCode}');
    } else if (value.length > keyObject.length) {
      throw new Error('[PINGAN] Key ${keyObject.key} overflow for function ' +
                      '${self._functionCode}');
    }
    return value;
  };
  \<close>
  (\<open>extract_key\<close> here, \<open>extract\<close> being a command of Isabelle.)
  \<open>dataObject.hasOwnProperty\<close> is the method every object inherits unless the object
  has an own property of that name. Then the property's value, a string or a number, is
  what the code calls, and the runtime raises a TypeError: at the first test when the key
  is required, at the second otherwise.
\<close>

definition extract_key :: "keyObject \<Rightarrow> jsobject \<Rightarrow> error + jsval" where
  "extract_key keyObject dataObject =
     (if dataObject (str ''hasOwnProperty'') \<noteq> None
      then Inl TypeError
      else if required keyObject \<and> dataObject (key keyObject) = None
      then Inl (Error missing_key_message)
      else case dataObject (key keyObject) of
        None \<Rightarrow>
          (case default_k keyObject of
             None \<Rightarrow> Inr (JString [])
           | Some d \<Rightarrow> Inr (if truthy d then d else JString []))
      | Some v \<Rightarrow>
          if type_k keyObject = TypeString \<and> \<not> digits_only (toString v)
          then Inl (Error incorrect_format_message)
          else if length_exceeds v (length_k keyObject)
          then Inl (Error overflow_message)
          else Inr v)"

text \<open>
  The three nested loops of \<open>composeMessageBody\<close>, each threading the accumulator
  \<open>messageBody\<close>; a throw inside leaves every enclosing loop.
  \<^verbatim>\<open>
  for (let key of keyDictionary) {
    if (key instanceof Array) {
      for (let listItem of this._paramsList.list) {
        for (let subKey of key) {
          messageBody += extract(subKey, listItem) + '&';
        }
      }
    } else {
      messageBody += extract(key, this._paramsList) + '&';
    }
  }
  \<close>
\<close>

fun body_subKeys :: "jsstring \<Rightarrow> keyObject list \<Rightarrow> jsobject \<Rightarrow> error + jsstring" where
  "body_subKeys messageBody [] listItem = Inr messageBody"
| "body_subKeys messageBody (subKey # subKeys) listItem =
     (case extract_key subKey listItem of
        Inl e \<Rightarrow> Inl e
      | Inr v \<Rightarrow> body_subKeys (messageBody @ toString v @ str ''&'') subKeys listItem)"

fun body_listItems :: "jsstring \<Rightarrow> keyObject list \<Rightarrow> jsobject list \<Rightarrow> error + jsstring" where
  "body_listItems messageBody k [] = Inr messageBody"
| "body_listItems messageBody k (listItem # listItems) =
     (case body_subKeys messageBody k listItem of
        Inl e \<Rightarrow> Inl e
      | Inr messageBody' \<Rightarrow> body_listItems messageBody' k listItems)"

fun body_keys :: "paramsList \<Rightarrow> jsstring \<Rightarrow> entry list \<Rightarrow> error + jsstring" where
  "body_keys params messageBody [] = Inr messageBody"
| "body_keys params messageBody (Scalar k # keys) =
     (case extract_key k (own params) of
        Inl e \<Rightarrow> Inl e
      | Inr v \<Rightarrow> body_keys params (messageBody @ toString v @ str ''&'') keys)"
| "body_keys params messageBody (Group k # keys) =
     (case list params of
        None \<Rightarrow> Inl TypeError
      | Some NotIterable \<Rightarrow> Inl TypeError
      | Some (Array listItems) \<Rightarrow>
          (case body_listItems messageBody k listItems of
             Inl e \<Rightarrow> Inl e
           | Inr messageBody' \<Rightarrow> body_keys params messageBody' keys))"

section \<open>The message object\<close>

record clientConfig =
  marketId :: jsstring
  serviceType :: jsstring
  macAddress :: jsstring
  dateTimeFormat :: jsstring
  defaultResponseCode :: jsstring
  conFlag :: jsstring
  countId :: jsstring

text \<open>
  What the class takes from outside the file: the schema table, \<open>iconv.encode(s, 'gbk')\<close>,
  \<open>Buffer.from(s)\<close>, and \<open>dateFormat(new Date(), format)\<close>, a function of the
  instant at which the clock is read (a natural number) and of the format.
\<close>

record env =
  request :: "jsstring \<rightharpoonup> entry list"
  gbkEncode :: "jsstring \<Rightarrow> byte list"
  bufferFrom :: "jsstring \<Rightarrow> byte list"
  dateFormat :: "nat \<Rightarrow> jsstring \<Rightarrow> jsstring"

text \<open>The private fields of a \<open>RegulatoryMessage\<close>; \<open>None\<close> is a field that has
  not been assigned yet.\<close>

record message =
  priv_clientConfig :: clientConfig
  priv_clientLogId :: jsstring
  priv_functionCode :: jsstring
  priv_paramsList :: paramsList
  priv_messageBody :: "jsstring option"
  priv_messageBodyBuffer :: "byte list option"
  priv_messageHead :: "jsstring option"
  priv_networkHead :: "jsstring option"

definition composeMessageBody :: "env \<Rightarrow> message \<Rightarrow> error + jsstring" where
  "composeMessageBody api m =
     (case request api (priv_functionCode m) of
        None \<Rightarrow> Inl TypeError
      | Some keyDictionary \<Rightarrow> body_keys (priv_paramsList m) [] keyDictionary)"

text \<open>
  The getters return the value read and the object as the call leaves it.
  \<^verbatim>\<open>
  get messageBody() {
    if (!this._messageBody) { this._messageBody = this.composeMessageBody(); }
    return this._messageBody;
  }
  get messageBodyBuffer() {
    if (!this._messageBodyBuffer) { this._messageBodyBuffer = gbkEncode(this.messageBody); }
    return this._messageBodyBuffer;
  }
  \<close>
  A string is falsy when it is empty; a \<open>Buffer\<close> is an object and always truthy.
\<close>

definition get_messageBody :: "env \<Rightarrow> message \<Rightarrow> error + (jsstring \<times> message)" where
  "get_messageBody api m =
     (case priv_messageBody m of
        Some (c # cs) \<Rightarrow> Inr (c # cs, m)
      | _ \<Rightarrow>
          (case composeMessageBody api m of
             Inl e \<Rightarrow> Inl e
           | Inr b \<Rightarrow> Inr (b, m\<lparr>priv_messageBody := Some b\<rparr>)))"

definition get_messageBodyBuffer :: "env \<Rightarrow> message \<Rightarrow> error + (byte list \<times> message)" where
  "get_messageBodyBuffer api m =
     (case priv_messageBodyBuffer m of
        Some buf \<Rightarrow> Inr (buf, m)
      | None \<Rightarrow>
          (case get_messageBody api m of
             Inl e \<Rightarrow> Inl e
           | Inr (b, m') \<Rightarrow>
               Inr (gbkEncode api b, m'\<lparr>priv_messageBodyBuffer := Some (gbkEncode api b)\<rparr>)))"

text \<open>\<open>composeMessageHead\<close> and \<open>composeNetworkHead\<close>; \<open>now\<close> is the instant of
  the call's \<open>new Date()\<close>.\<close>

definition composeMessageHead :: "env \<Rightarrow> nat \<Rightarrow> message \<Rightarrow> error + (jsstring \<times> message)" where
  "composeMessageHead api now m =
     (case get_messageBodyBuffer api m of
        Inl e \<Rightarrow> Inl e
      | Inr (buf, m') \<Rightarrow>
          Inr (priv_functionCode m
               @ serviceType (priv_clientConfig m)
               @ macAddress (priv_clientConfig m)
               @ dateFormat api now (dateTimeFormat (priv_clientConfig m))
               @ defaultResponseCode (priv_clientConfig m)
               @ array_join 43 (str '' '')
               @ conFlag (priv_clientConfig m)
               @ padString (JNumber (length buf)) 8 (Some (str ''0''))
               @ countId (priv_clientConfig m)
               @ priv_clientLogId m
               @ marketId (priv_clientConfig m), m'))"

definition composeNetworkHead :: "env \<Rightarrow> nat \<Rightarrow> message \<Rightarrow> error + (jsstring \<times> message)" where
  "composeNetworkHead api now m =
     (case get_messageBodyBuffer api m of
        Inl e \<Rightarrow> Inl e
      | Inr (buf, m') \<Rightarrow>
          Inr (str ''A001130101''
               @ marketId (priv_clientConfig m)
               @ str ''                ''
               @ padString (JNumber (length buf)) 10 (Some (str ''0''))
               @ str ''000000''
               @ countId (priv_clientConfig m)
               @ serviceType (priv_clientConfig m)
               @ dateFormat api now (dateTimeFormat (priv_clientConfig m))
               @ priv_clientLogId m
               @ defaultResponseCode (priv_clientConfig m)
               @ array_join 101 (str '' '')
               @ conFlag (priv_clientConfig m)
               @ str ''000''
               @ str ''0''
               @ str ''0''
               @ array_join 13 (str '' '')
               @ array_join 12 (str ''0''), m'))"

text \<open>
  \<^verbatim>\<open>
  get messageHead() {
    if (this._messageHead) { this._messageHead = this.composeMessageHead(); }
    return this._messageHead;
  }
  \<close>
  and the same for \<open>networkHead\<close>: the header is composed again when the field holds a
  non-empty string, and the field is returned as it is otherwise.
\<close>

definition get_messageHead ::
  "env \<Rightarrow> nat \<Rightarrow> message \<Rightarrow> error + (jsstring option \<times> message)" where
  "get_messageHead api now m =
     (case priv_messageHead m of
        Some (c # cs) \<Rightarrow>
          (case composeMessageHead api now m of
             Inl e \<Rightarrow> Inl e
           | Inr (h, m') \<Rightarrow> Inr (Some h, m'\<lparr>priv_messageHead := Some h\<rparr>))
      | r \<Rightarrow> Inr (r, m))"

definition get_networkHead ::
  "env \<Rightarrow> nat \<Rightarrow> message \<Rightarrow> error + (jsstring option \<times> message)" where
  "get_networkHead api now m =
     (case priv_networkHead m of
        Some (c # cs) \<Rightarrow>
          (case composeNetworkHead api now m of
             Inl e \<Rightarrow> Inl e
           | Inr (h, m') \<Rightarrow> Inr (Some h, m'\<lparr>priv_networkHead := Some h\<rparr>))
      | r \<Rightarrow> Inr (r, m))"

text \<open>
  \<^verbatim>\<open>
  get buffer() {
    var networkHeadBuffer = Buffer.from(this.networkHead);
    var messageHeadBuffer = Buffer.from(this.messageHead);
    const totalLength = networkHeadBuffer.length + messageHeadBuffer.length +
                        this.messageBodyBuffer.length;
    return Buffer.concat([networkHeadBuffer, messageHeadBuffer,
                          this.messageBodyBuffer], totalLength);
  }
  \<close>
  \<open>Buffer.from(undefined)\<close> throws a TypeError. The two header getters read the clock
  at \<open>now1\<close> and \<open>now2\<close>.
\<close>

definition get_buffer ::
  "env \<Rightarrow> nat \<Rightarrow> nat \<Rightarrow> message \<Rightarrow> error + (byte list \<times> message)" where
  "get_buffer api now1 now2 m =
     (case get_networkHead api now1 m of
        Inl e \<Rightarrow> Inl e
      | Inr (None, m1) \<Rightarrow> Inl TypeError
      | Inr (Some networkHead, m1) \<Rightarrow>
          (case get_messageHead api now2 m1 of
             Inl e \<Rightarrow> Inl e
           | Inr (None, m2) \<Rightarrow> Inl TypeError
           | Inr (Some messageHead, m2) \<Rightarrow>
               (case get_messageBodyBuffer api m2 of
                  Inl e \<Rightarrow> Inl e
                | Inr (buf, m3) \<Rightarrow>
                    Inr (bufferFrom api networkHead @ bufferFrom api messageHead @ buf, m3))))"

text \<open>
  \<^verbatim>\<open>
  constructor(clientConfig, clientLogId, functionCode, paramsList) {
    this._clientConfig = clientConfig;
    this._clientLogId = padString(clientLogId, 20, '0');
    this._functionCode = functionCode;
    if (!api.request.hasOwnProperty(functionCode)) {
      throw new Error('[PINGAN] Pingan Invalid Function Code');
    }
    this._paramsList = paramsList;
    this._messageBody = this.composeMessageBody();
    this._messageHead = this.composeMessageHead();
    this._networkHead = this.composeNetworkHead();
  }
  \<close>
  \<open>now1\<close> and \<open>now2\<close> are the instants at which the two header builders read the
  clock. A throw leaves no object behind: the result is the error alone.
\<close>

definition new_RegulatoryMessage ::
  "env \<Rightarrow> nat \<Rightarrow> nat \<Rightarrow> clientConfig \<Rightarrow> jsval \<Rightarrow> jsstring \<Rightarrow> paramsList
     \<Rightarrow> error + message" where
  "new_RegulatoryMessage api now1 now2 config clientLogId functionCode params =
     (if request api functionCode = None
      then Inl (Error invalid_function_code_message)
      else
        let m0 = \<lparr>priv_clientConfig = config,
                  priv_clientLogId = padString clientLogId 20 (Some (str ''0'')),
                  priv_functionCode = functionCode,
                  priv_paramsList = params,
                  priv_messageBody = None,
                  priv_messageBodyBuffer = None,
                  priv_messageHead = None,
                  priv_networkHead = None\<rparr>
        in case composeMessageBody api m0 of
             Inl e \<Rightarrow> Inl e
           | Inr b \<Rightarrow>
               (case composeMessageHead api now1 (m0\<lparr>priv_messageBody := Some b\<rparr>) of
                  Inl e \<Rightarrow> Inl e
                | Inr (h, m1) \<Rightarrow>
                    (case composeNetworkHead api now2 (m1\<lparr>priv_messageHead := Some h\<rparr>) of
                       Inl e \<Rightarrow> Inl e
                     | Inr (n, m2) \<Rightarrow> Inr (m2\<lparr>priv_networkHead := Some n\<rparr>))))"

section \<open>Reading a length field\<close>

text \<open>
  The number that a string of decimal digits denotes: what the receiver of a header reads
  from its length field.
\<close>

definition digit_value :: "jschar \<Rightarrow> nat" where
  "digit_value c = unat c - 48"

definition decimal_value :: "jsstring \<Rightarrow> nat" where
  "decimal_value s = foldl (\<lambda>a c. 10 * a + digit_value c) 0 s"

section \<open>A concrete environment\<close>

text \<open>
  The theorems below hold for every environment. To evaluate the code at concrete inputs,
  \<open>sample_env\<close> fixes one: \<open>gbk_fragment\<close> agrees with GBK on ASCII (one byte
  each), on U+4E2D (D6 D0) and on U+6587 (CE C4), and shows every other code unit as
  \<open>?\<close>; \<open>ascii_bytes\<close> is \<open>Buffer.from\<close> on ASCII strings; the date formatter
  prints the instant in decimal. \<open>sample_config\<close> has the defaults that
  \<open>RegulatoryClient\<close> fills in, and the descriptors are those of a small schema table.
\<close>

definition gbk_fragment :: "jsstring \<Rightarrow> byte list" where
  "gbk_fragment s =
     concat (map (\<lambda>c. if c < 128 then [ucast c]
                       else if c = 0x4E2D then [0xD6, 0xD0]
                       else if c = 0x6587 then [0xCE, 0xC4]
                       else [0x3F]) s)"

definition ascii_bytes :: "jsstring \<Rightarrow> byte list" where
  "ascii_bytes s = map (\<lambda>c. if c < 128 then ucast c else 0x3F) s"

definition sample_env :: "(jsstring \<rightharpoonup> entry list) \<Rightarrow> env" where
  "sample_env table =
     \<lparr>request = table, gbkEncode = gbk_fragment, bufferFrom = ascii_bytes,
      dateFormat = (\<lambda>now format. digits_of now)\<rparr>"

definition sample_config :: clientConfig where
  "sample_config =
     \<lparr>marketId = str ''3351'', serviceType = str ''01'',
      macAddress = str ''                '', dateTimeFormat = str ''yyyyMMddHHmmss'',
      defaultResponseCode = str ''999999'', conFlag = str ''0'', countId = str ''PA001''\<rparr>"

definition amt :: keyObject where
  "amt = \<lparr>key = str ''amt'', required = True, default_k = None,
          type_k = TypeString, length_k = 10\<rparr>"

definition name_k :: keyObject where
  "name_k = \<lparr>key = str ''name'', required = False, default_k = Some (JString (str ''N/A'')),
             type_k = TypeOther, length_k = 4\<rparr>"

definition qty :: keyObject where
  "qty = \<lparr>key = str ''qty'', required = True, default_k = None,
          type_k = TypeString, length_k = 3\<rparr>"


section \<open>The body as the specification describes it\<close>

text \<open>
  The specification describes the body as one value per schema entry, in schema order: one
  for a scalar descriptor, looked up in the parameter set, and for a repeating group one
  per sub-descriptor per entry of the parameter set's list. \<open>field_slots\<close> lists these
  places, each a descriptor with the object it is looked up in, and \<open>entry_count\<close>
  counts them; \<open>render_fields\<close> writes every value followed by one \<open>&\<close>.
  \<open>extract_all\<close> is the builder as one pass over these places.
\<close>

definition list_items :: "paramsList \<Rightarrow> jsobject list" where
  "list_items params = (case list params of Some (Array items) \<Rightarrow> items | _ \<Rightarrow> [])"

definition list_iterable :: "paramsList \<Rightarrow> bool" where
  "list_iterable params = (case list params of Some (Array items) \<Rightarrow> True | _ \<Rightarrow> False)"

fun field_slots :: "paramsList \<Rightarrow> entry list \<Rightarrow> (keyObject \<times> jsobject) list" where
  "field_slots params [] = []"
| "field_slots params (Scalar k # keys) = (k, own params) # field_slots params keys"
| "field_slots params (Group g # keys) =
     concat (map (\<lambda>item. map (\<lambda>k. (k, item)) g) (list_items params))
     @ field_slots params keys"

fun entry_count :: "paramsList \<Rightarrow> entry list \<Rightarrow> nat" where
  "entry_count params [] = 0"
| "entry_count params (Scalar k # keys) = 1 + entry_count params keys"
| "entry_count params (Group g # keys) =
     length (list_items params) * length g + entry_count params keys"

definition render_fields :: "jsval list \<Rightarrow> jsstring" where
  "render_fields vals = concat (map (\<lambda>v. toString v @ str ''&'') vals)"


text \<open>
  Decoding: the fields of a string are its pieces between the \<open>&\<close> delimiters, each
  closed by one (a last piece without a delimiter counts when it is not empty).
  \<open>field\<close> is the piece being read.
\<close>

fun decode_fields :: "jsstring \<Rightarrow> jsstring \<Rightarrow> jsstring list" where
  "decode_fields field [] = (if field = [] then [] else [field])"
| "decode_fields field (c # cs) =
     (if c = 38 then field # decode_fields [] cs else decode_fields (field @ [c]) cs)"

section \<open>Properties of \<open>padString\<close>\<close>

lemma replicate_numeral_unfold: "replicate (numeral k) x = x # replicate (pred_numeral k) x"
  by (simp add: numeral_eq_Suc)

lemma array_join_single: "array_join n [c] = replicate (n - 1) c"
  by (induction n) (simp_all add: array_join_def replicate_append_same)

lemma padString_eq:
  "padString v w sp =
     (let c = (case sp of None \<Rightarrow> 48 | Some [] \<Rightarrow> 48 | Some (x # xs) \<Rightarrow> x); s = toString v
      in if length s = w then s
         else if length s > w then drop (length s - w) s
         else replicate (w - length s) c @ s)"
  by (auto simp: padString_def Let_def str_def array_join_single split: option.splits list.splits)

lemma length_padString: "length (padString v w sp) = w"
  by (simp add: padString_eq Let_def)

text \<open>
  C8. For every value, width and spacer, \<open>padString\<close> returns the value's string form
  unchanged when its length equals the width, its trailing \<open>width\<close> characters when it is
  longer, and the string left-padded with the first character of the spacer when it is
  shorter (with the character 0 when the spacer is absent or empty); the result always has
  \<open>width\<close> characters. In particular \<open>pad("12345", 8, "0") = "00012345"\<close>,
  \<open>pad("123456789", 8, "0") = "23456789"\<close> and \<open>pad("abc", 3, "0") = "abc"\<close>, for
  the string and for the number alike.
\<close>

theorem padString_fixed_width:
  "(length (toString v) = w \<longrightarrow> padString v w sp = toString v) \<and>
   (length (toString v) > w \<longrightarrow>
      padString v w sp = drop (length (toString v) - w) (toString v)) \<and>
   (length (toString v) < w \<longrightarrow>
      padString v w (Some (c # cs)) = replicate (w - length (toString v)) c @ toString v) \<and>
   (length (toString v) < w \<longrightarrow>
      padString v w None = replicate (w - length (toString v)) 48 @ toString v \<and>
      padString v w (Some []) = replicate (w - length (toString v)) 48 @ toString v) \<and>
   length (padString v w sp) = w \<and>
   padString (JString (str ''12345'')) 8 (Some (str ''0'')) = str ''00012345'' \<and>
   padString (JString (str ''123456789'')) 8 (Some (str ''0'')) = str ''23456789'' \<and>
   padString (JString (str ''abc'')) 3 (Some (str ''0'')) = str ''abc'' \<and>
   padString (JNumber 12345) 8 (Some (str ''0'')) = str ''00012345'' \<and>
   padString (JNumber 123456789) 8 (Some (str ''0'')) = str ''23456789''"
proof -
  have ex1: "padString (JString (str ''12345'')) 8 (Some (str ''0'')) = str ''00012345''"
    by (simp add: padString_eq str_def replicate_numeral_unfold)
  have ex2: "padString (JString (str ''123456789'')) 8 (Some (str ''0'')) = str ''23456789''"
    by (simp add: padString_eq str_def)
  have ex3: "padString (JString (str ''abc'')) 3 (Some (str ''0'')) = str ''abc''"
    by (simp add: padString_eq str_def)
  have ex4: "padString (JNumber 12345) 8 (Some (str ''0'')) = str ''00012345''"
    by (simp add: padString_eq str_def digits_of.simps replicate_numeral_unfold)
  have ex5: "padString (JNumber 123456789) 8 (Some (str ''0'')) = str ''23456789''"
    by (simp add: padString_eq str_def digits_of.simps)
  show ?thesis
    using ex1 ex2 ex3 ex4 ex5 by (simp add: padString_eq Let_def)
qed

text \<open>The three cases at concrete inputs, through the theorem.\<close>

theorem padString_fixed_width_witness:
  "padString (JString (str ''7'')) 3 (Some (str ''xy'')) = str ''xx7'' \<and>
   padString (JString (str ''7'')) 3 None = str ''007'' \<and>
   padString (JString (str ''2024'')) 2 (Some (str ''x'')) = str ''24'' \<and>
   padString (JString (str ''ok'')) 2 None = str ''ok''"
proof -
  have a: "length (toString (JString (str ''7''))) < 3"
    by (simp add: str_def)
  have b: "length (toString (JString (str ''2024''))) > 2"
    by (simp add: str_def)
  have c: "length (toString (JString (str ''ok''))) = 2"
    by (simp add: str_def)
  have xy: "str ''xy'' = 120 # [121]"
    by (simp add: str_def)
  have "padString (JString (str ''7'')) 3 (Some (120 # [121])) =
          replicate (3 - length (toString (JString (str ''7'')))) 120 @ toString (JString (str ''7''))"
    using a padString_fixed_width [of "JString (str ''7'')" 3 None 120 "[121]"] by blast
  then have 1: "padString (JString (str ''7'')) 3 (Some (str ''xy'')) = str ''xx7''"
    by (simp add: xy) (simp add: str_def replicate_numeral_unfold)
  have "padString (JString (str ''7'')) 3 None =
          replicate (3 - length (toString (JString (str ''7'')))) 48 @ toString (JString (str ''7''))"
    using a padString_fixed_width [of "JString (str ''7'')" 3 None 120 "[121]"] by blast
  then have 2: "padString (JString (str ''7'')) 3 None = str ''007''"
    by (simp add: str_def replicate_numeral_unfold)
  have "padString (JString (str ''2024'')) 2 (Some (str ''x'')) =
          drop (length (toString (JString (str ''2024''))) - 2) (toString (JString (str ''2024'')))"
    using b padString_fixed_width [of "JString (str ''2024'')" 2 "Some (str ''x'')" 0 "[]"] by blast
  then have 3: "padString (JString (str ''2024'')) 2 (Some (str ''x'')) = str ''24''"
    by (simp add: str_def)
  have "padString (JString (str ''ok'')) 2 None = toString (JString (str ''ok''))"
    using c padString_fixed_width [of "JString (str ''ok'')" 2 None 0 "[]"] by blast
  then have 4: "padString (JString (str ''ok'')) 2 None = str ''ok''"
    by simp
  from 1 2 3 4 show ?thesis by blast
qed

section \<open>Decimal numerals\<close>

lemma decimal_value_Nil: "decimal_value [] = 0"
  by (simp add: decimal_value_def)

lemma decimal_value_snoc: "decimal_value (s @ [c]) = 10 * decimal_value s + digit_value c"
  by (simp add: decimal_value_def)

lemma digit_char:
  assumes "d < 10"
  shows "is_digit (of_nat (48 + d))" and "digit_value (of_nat (48 + d)) = d"
proof -
  have u: "unat (of_nat (48 + d) :: jschar) = 48 + d"
  proof (rule of_nat_inverse)
    show "of_nat (48 + d) = (of_nat (48 + d) :: jschar)" by simp
    show "48 + d < 2 ^ LENGTH(16)" using assms by simp
  qed
  have "(48::jschar) \<le> of_nat (48 + d) \<and> (of_nat (48 + d) :: jschar) \<le> 57"
    using assms u by (simp add: word_le_nat_alt)
  then show "is_digit (of_nat (48 + d))" by (simp add: is_digit_def)
  show "digit_value (of_nat (48 + d)) = d"
    using u by (simp add: digit_value_def)
qed

lemma digits_of_digits: "list_all is_digit (digits_of n) \<and> digits_of n \<noteq> []"
proof (induction n rule: digits_of.induct)
  case (1 n)
  show ?case
  proof (cases "n < 10")
    case True
    then show ?thesis
      using digit_char(1) [of n] by (simp add: digits_of.simps [of n])
  next
    case False
    have "n mod 10 < 10" by simp
    then have "is_digit (of_nat (48 + n mod 10))" by (rule digit_char(1))
    with False 1 show ?thesis
      by (simp add: digits_of.simps [of n])
  qed
qed

lemma decimal_value_digits_of: "decimal_value (digits_of n) = n"
proof (induction n rule: digits_of.induct)
  case (1 n)
  show ?case
  proof (cases "n < 10")
    case True
    then show ?thesis
      using digit_char(2) [of n] by (simp add: digits_of.simps [of n] decimal_value_def)
  next
    case False
    have "n mod 10 < 10" by simp
    then have "digit_value (of_nat (48 + n mod 10)) = n mod 10" by (rule digit_char(2))
    with False 1 show ?thesis
      by (simp add: digits_of.simps [of n] decimal_value_snoc)
  qed
qed

lemma mod_ten_step:
  fixes a d M :: nat
  assumes "d < 10" and "0 < M"
  shows "(10 * a + d) mod (10 * M) = 10 * (a mod M) + d"
proof -
  have "(10 * a + d) div 10 = a" and "(10 * a + d) mod 10 = d"
    using assms(1) by simp_all
  then show ?thesis
    by (simp add: mod_mult2_eq)
qed

lemma decimal_value_drop:
  "list_all is_digit s \<Longrightarrow> decimal_value (drop k s) = decimal_value s mod 10 ^ (length s - k)"
proof (induction s arbitrary: k rule: rev_induct)
  case Nil
  then show ?case by (simp add: decimal_value_Nil)
next
  case (snoc c s)
  then have dig: "list_all is_digit s" and c: "is_digit c" by simp_all
  have d: "digit_value c < 10"
  proof -
    from c have "unat c \<le> 57" by (simp add: is_digit_def word_le_nat_alt)
    then show ?thesis by (simp add: digit_value_def)
  qed
  show ?case
  proof (cases "k \<le> length s")
    case True
    then have "decimal_value (drop k (s @ [c])) = 10 * decimal_value (drop k s) + digit_value c"
      by (simp add: decimal_value_snoc)
    also have "\<dots> = 10 * (decimal_value s mod 10 ^ (length s - k)) + digit_value c"
      using snoc.IH [OF dig] by simp
    also have "\<dots> = (10 * decimal_value s + digit_value c) mod (10 * 10 ^ (length s - k))"
      using mod_ten_step [OF d, of "10 ^ (length s - k)" "decimal_value s"] by simp
    also have "\<dots> = decimal_value (s @ [c]) mod 10 ^ (length (s @ [c]) - k)"
      using True by (simp add: decimal_value_snoc Suc_diff_le)
    finally show ?thesis .
  next
    case False
    then show ?thesis by (simp add: decimal_value_Nil)
  qed
qed

lemma decimal_value_zeros: "decimal_value (replicate k 48 @ s) = decimal_value s"
proof -
  have "foldl (\<lambda>a c. 10 * a + digit_value c) 0 (replicate k 48) = 0"
    by (induction k) (simp_all add: digit_value_def)
  then show ?thesis by (simp add: decimal_value_def)
qed

lemma padString_number:
  "length (padString (JNumber n) w (Some (str ''0''))) = w \<and>
   list_all is_digit (padString (JNumber n) w (Some (str ''0''))) \<and>
   decimal_value (padString (JNumber n) w (Some (str ''0''))) = n mod 10 ^ w"
proof -
  let ?s = "digits_of n"
  have dig: "list_all is_digit ?s" using digits_of_digits by blast
  have zero: "is_digit 48" by (simp add: is_digit_def)
  consider "length ?s = w" | "length ?s > w" | "length ?s < w" by linarith
  then show ?thesis
  proof cases
    case 1
    have "decimal_value ?s = decimal_value (drop 0 ?s)" by simp
    also have "\<dots> = n mod 10 ^ w"
      using decimal_value_drop [OF dig, of 0] 1 by (simp add: decimal_value_digits_of)
    finally show ?thesis using 1 dig by (simp add: padString_eq str_def Let_def)
  next
    case 2
    have "decimal_value (drop (length ?s - w) ?s) = n mod 10 ^ w"
      using decimal_value_drop [OF dig, of "length ?s - w"] 2
      by (simp add: decimal_value_digits_of)
    moreover have "list_all is_digit (drop (length ?s - w) ?s)"
      using dig by (simp add: list_all_iff) (meson in_set_dropD)
    ultimately show ?thesis using 2 by (simp add: padString_eq str_def Let_def)
  next
    case 3
    have "n = decimal_value (drop 0 ?s)" by (simp add: decimal_value_digits_of)
    also have "\<dots> = n mod 10 ^ length ?s"
      using decimal_value_drop [OF dig, of 0] by (simp add: decimal_value_digits_of)
    finally have "n < 10 ^ length ?s"
      by (metis mod_less_divisor zero_less_numeral zero_less_power)
    also have "\<dots> < 10 ^ w" using 3 by simp
    finally have "n mod 10 ^ w = n" by simp
    then show ?thesis
      using 3 dig zero
      by (simp add: padString_eq str_def Let_def decimal_value_zeros decimal_value_digits_of list_all_iff)
  qed
qed

section \<open>The constructor\<close>

lemma get_messageBodyBuffer_fresh:
  assumes "request api (priv_functionCode m) = Some kd"
    and "body_keys (priv_paramsList m) [] kd = Inr b"
    and "priv_messageBody m = Some b"
    and "priv_messageBodyBuffer m = None"
  shows "get_messageBodyBuffer api m =
           Inr (gbkEncode api b, m\<lparr>priv_messageBodyBuffer := Some (gbkEncode api b)\<rparr>)"
proof -
  have "get_messageBody api m = Inr (b, m)"
    using assms(1-3)
    by (cases b) (simp_all add: get_messageBody_def composeMessageBody_def)
  then show ?thesis
    using assms(4) by (simp add: get_messageBodyBuffer_def)
qed

lemma get_messageBodyBuffer_cached:
  "priv_messageBodyBuffer m = Some buf \<Longrightarrow> get_messageBodyBuffer api m = Inr (buf, m)"
  by (simp add: get_messageBodyBuffer_def)

lemma new_RegulatoryMessage_eq:
  "new_RegulatoryMessage api now1 now2 config clientLogId functionCode params =
     (case request api functionCode of
        None \<Rightarrow> Inl (Error invalid_function_code_message)
      | Some kd \<Rightarrow>
          (case body_keys params [] kd of
             Inl e \<Rightarrow> Inl e
           | Inr b \<Rightarrow>
               Inr \<lparr>priv_clientConfig = config,
                    priv_clientLogId = padString clientLogId 20 (Some (str ''0'')),
                    priv_functionCode = functionCode,
                    priv_paramsList = params,
                    priv_messageBody = Some b,
                    priv_messageBodyBuffer = Some (gbkEncode api b),
                    priv_messageHead = Some
                      (functionCode @ serviceType config @ macAddress config
                       @ dateFormat api now1 (dateTimeFormat config)
                       @ defaultResponseCode config @ array_join 43 (str '' '')
                       @ conFlag config
                       @ padString (JNumber (length (gbkEncode api b))) 8 (Some (str ''0''))
                       @ countId config
                       @ padString clientLogId 20 (Some (str ''0''))
                       @ marketId config),
                    priv_networkHead = Some
                      (str ''A001130101'' @ marketId config @ str ''                ''
                       @ padString (JNumber (length (gbkEncode api b))) 10 (Some (str ''0''))
                       @ str ''000000'' @ countId config @ serviceType config
                       @ dateFormat api now2 (dateTimeFormat config)
                       @ padString clientLogId 20 (Some (str ''0''))
                       @ defaultResponseCode config @ array_join 101 (str '' '')
                       @ conFlag config @ str ''000'' @ str ''0'' @ str ''0''
                       @ array_join 13 (str '' '') @ array_join 12 (str ''0''))\<rparr>))"
proof (cases "request api functionCode")
  case None
  then show ?thesis by (simp add: new_RegulatoryMessage_def)
next
  case (Some kd)
  show ?thesis
  proof (cases "body_keys params [] kd")
    case (Inl e)
    with Some show ?thesis
      by (simp add: new_RegulatoryMessage_def composeMessageBody_def Let_def)
  next
    case (Inr b)
    define m0 where "m0 = \<lparr>priv_clientConfig = config,
                  priv_clientLogId = padString clientLogId 20 (Some (str ''0'')),
                  priv_functionCode = functionCode,
                  priv_paramsList = params,
                  priv_messageBody = Some b,
                  priv_messageBodyBuffer = None,
                  priv_messageHead = None,
                  priv_networkHead = None\<rparr>"
    have buf0: "get_messageBodyBuffer api m0 =
           Inr (gbkEncode api b, m0\<lparr>priv_messageBodyBuffer := Some (gbkEncode api b)\<rparr>)"
      by (rule get_messageBodyBuffer_fresh [where kd = kd]) (simp_all add: m0_def Some Inr)
    show ?thesis
      using Some Inr buf0
      by (simp add: new_RegulatoryMessage_def composeMessageBody_def Let_def
          composeMessageHead_def composeNetworkHead_def get_messageBodyBuffer_cached m0_def)
  qed
qed

lemma spaces_42_nonempty: "array_join 43 (str '' '') \<noteq> []"
  by (simp add: str_def array_join_single)

lemma composeMessageHead_cached:
  "priv_messageBodyBuffer m = Some buf \<Longrightarrow>
   composeMessageHead api now m =
     Inr (priv_functionCode m
          @ serviceType (priv_clientConfig m)
          @ macAddress (priv_clientConfig m)
          @ dateFormat api now (dateTimeFormat (priv_clientConfig m))
          @ defaultResponseCode (priv_clientConfig m)
          @ array_join 43 (str '' '')
          @ conFlag (priv_clientConfig m)
          @ padString (JNumber (length buf)) 8 (Some (str ''0''))
          @ countId (priv_clientConfig m)
          @ priv_clientLogId m
          @ marketId (priv_clientConfig m), m)"
  by (simp add: composeMessageHead_def get_messageBodyBuffer_cached)

lemma composeNetworkHead_cached:
  "priv_messageBodyBuffer m = Some buf \<Longrightarrow>
   composeNetworkHead api now m =
     Inr (str ''A001130101''
          @ marketId (priv_clientConfig m)
          @ str ''                ''
          @ padString (JNumber (length buf)) 10 (Some (str ''0''))
          @ str ''000000''
          @ countId (priv_clientConfig m)
          @ serviceType (priv_clientConfig m)
          @ dateFormat api now (dateTimeFormat (priv_clientConfig m))
          @ priv_clientLogId m
          @ defaultResponseCode (priv_clientConfig m)
          @ array_join 101 (str '' '')
          @ conFlag (priv_clientConfig m)
          @ str ''000''
          @ str ''0''
          @ str ''0''
          @ array_join 13 (str '' '')
          @ array_join 12 (str ''0''), m)"
  by (simp add: composeNetworkHead_def get_messageBodyBuffer_cached)

lemma get_messageHead_recompute:
  assumes "priv_messageBodyBuffer m = Some buf" and "priv_messageHead m = Some h" and "h \<noteq> []"
  shows "get_messageHead api now m =
     Inr (Some (fst (projr (composeMessageHead api now m))),
          m\<lparr>priv_messageHead := Some (fst (projr (composeMessageHead api now m)))\<rparr>)"
  using assms
  by (cases h) (simp_all add: get_messageHead_def composeMessageHead_cached)

lemma get_networkHead_recompute:
  assumes "priv_messageBodyBuffer m = Some buf" and "priv_networkHead m = Some h" and "h \<noteq> []"
  shows "get_networkHead api now m =
     Inr (Some (fst (projr (composeNetworkHead api now m))),
          m\<lparr>priv_networkHead := Some (fst (projr (composeNetworkHead api now m)))\<rparr>)"
  using assms
  by (cases h) (simp_all add: get_networkHead_def composeNetworkHead_cached)

lemma new_RegulatoryMessage_Inr:
  assumes "new_RegulatoryMessage api now1 now2 config clientLogId functionCode params = Inr m"
  obtains kd b where "request api functionCode = Some kd"
    and "body_keys params [] kd = Inr b"
    and "m = \<lparr>priv_clientConfig = config,
                    priv_clientLogId = padString clientLogId 20 (Some (str ''0'')),
                    priv_functionCode = functionCode,
                    priv_paramsList = params,
                    priv_messageBody = Some b,
                    priv_messageBodyBuffer = Some (gbkEncode api b),
                    priv_messageHead = Some
                      (functionCode @ serviceType config @ macAddress config
                       @ dateFormat api now1 (dateTimeFormat config)
                       @ defaultResponseCode config @ array_join 43 (str '' '')
                       @ conFlag config
                       @ padString (JNumber (length (gbkEncode api b))) 8 (Some (str ''0''))
                       @ countId config
                       @ padString clientLogId 20 (Some (str ''0''))
                       @ marketId config),
                    priv_networkHead = Some
                      (str ''A001130101'' @ marketId config @ str ''                ''
                       @ padString (JNumber (length (gbkEncode api b))) 10 (Some (str ''0''))
                       @ str ''000000'' @ countId config @ serviceType config
                       @ dateFormat api now2 (dateTimeFormat config)
                       @ padString clientLogId 20 (Some (str ''0''))
                       @ defaultResponseCode config @ array_join 101 (str '' '')
                       @ conFlag config @ str ''000'' @ str ''0'' @ str ''0''
                       @ array_join 13 (str '' '') @ array_join 12 (str ''0''))\<rparr>"
  using assms unfolding new_RegulatoryMessage_eq
  by (auto split: option.splits sum.splits)

lemma new_RegulatoryMessage_succeeds:
  assumes "request api functionCode = Some kd" and "body_keys params [] kd = Inr b"
  shows "\<exists>m. new_RegulatoryMessage api now1 now2 config clientLogId functionCode params = Inr m"
  using assms by (simp add: new_RegulatoryMessage_eq)

lemma sample_body_500:
  "body_keys \<lparr>own = [str ''amt'' \<mapsto> JString (str ''500'')], list = None\<rparr> [] [Scalar amt] =
     Inr (str ''500&'')"
  by (simp add: amt_def extract_key_def str_def digits_only_def is_digit_def)

lemma sample_request_0001:
  "request (sample_env [str ''0001'' \<mapsto> kd]) (str ''0001'') = Some kd"
  by (simp add: sample_env_def)

lemma sample_body_name:
  "body_keys \<lparr>own = [str ''name'' \<mapsto> JString [0x4E2D, 0x6587]], list = None\<rparr> []
     [Scalar name_k] = Inr [0x4E2D, 0x6587, 0x26]"
  by (simp add: name_k_def extract_key_def str_def)

lemma new_RegulatoryMessage_logId:
  assumes "new_RegulatoryMessage api now1 now2 config clientLogId functionCode params = Inr m"
  shows "priv_clientLogId m = padString clientLogId 20 (Some (str ''0''))"
  using assms by (rule new_RegulatoryMessage_Inr) simp

lemma padString_42: "padString (JString (str ''42'')) 20 (Some (str ''0'')) = str ''00000000000000000042''"
  by (simp add: padString_eq str_def replicate_numeral_unfold)

section \<open>The loops of the body builder\<close>

lemma render_fields_Nil: "render_fields [] = []"
  by (simp add: render_fields_def)

lemma render_fields_Cons: "render_fields (v # vs) = toString v @ str ''&'' @ render_fields vs"
  by (simp add: render_fields_def)

lemma render_fields_append: "render_fields (vs @ ws) = render_fields vs @ render_fields ws"
  by (simp add: render_fields_def)

lemma body_subKeys_Inr:
  "body_subKeys mb g item = Inr r \<Longrightarrow>
   \<exists>vals. map (\<lambda>k. extract_key k item) g = map Inr vals \<and> r = mb @ render_fields vals"
proof (induction g arbitrary: mb)
  case Nil
  then show ?case by (simp add: render_fields_Nil)
next
  case (Cons k g)
  from Cons.prems obtain v where v: "extract_key k item = Inr v"
    and rest: "body_subKeys (mb @ toString v @ str ''&'') g item = Inr r"
    by (auto split: sum.splits)
  from Cons.IH [OF rest] obtain vals where
    "map (\<lambda>k. extract_key k item) g = map Inr vals" "r = (mb @ toString v @ str ''&'') @ render_fields vals"
    by blast
  then have "map (\<lambda>k. extract_key k item) (k # g) = map Inr (v # vals) \<and>
    r = mb @ render_fields (v # vals)"
    using v by (simp add: render_fields_Cons)
  then show ?case by blast
qed

lemma body_listItems_Inr:
  "body_listItems mb g items = Inr r \<Longrightarrow>
   \<exists>vals. map (\<lambda>(k, d). extract_key k d) (concat (map (\<lambda>item. map (\<lambda>k. (k, item)) g) items))
            = map Inr vals \<and> r = mb @ render_fields vals"
proof (induction items arbitrary: mb)
  case Nil
  then show ?case by (simp add: render_fields_Nil)
next
  case (Cons item items)
  from Cons.prems obtain mb' where first: "body_subKeys mb g item = Inr mb'"
    and rest: "body_listItems mb' g items = Inr r"
    by (auto split: sum.splits)
  from body_subKeys_Inr [OF first] obtain vs where
    vs: "map (\<lambda>k. extract_key k item) g = map Inr vs" "mb' = mb @ render_fields vs"
    by blast
  from Cons.IH [OF rest] obtain ws where
    ws: "map (\<lambda>(k, d). extract_key k d) (concat (map (\<lambda>item. map (\<lambda>k. (k, item)) g) items))
            = map Inr ws" "r = mb' @ render_fields ws"
    by blast
  have "map (\<lambda>(k, d). extract_key k d) (map (\<lambda>k. (k, item)) g) = map Inr vs"
    using vs(1) by (simp add: comp_def)
  then have "map (\<lambda>(k, d). extract_key k d)
       (concat (map (\<lambda>item. map (\<lambda>k. (k, item)) g) (item # items))) = map Inr (vs @ ws) \<and>
     r = mb @ render_fields (vs @ ws)"
    using ws vs(2) by (simp add: render_fields_append)
  then show ?case by blast
qed

lemma body_keys_Inr:
  "body_keys params mb keys = Inr r \<Longrightarrow>
   \<exists>vals. map (\<lambda>(k, d). extract_key k d) (field_slots params keys) = map Inr vals \<and>
          r = mb @ render_fields vals"
proof (induction params mb keys rule: body_keys.induct)
  case (1 params mb)
  then show ?case by (simp add: render_fields_Nil)
next
  case (2 params mb k keys)
  from "2.prems" obtain v where v: "extract_key k (own params) = Inr v"
    and rest: "body_keys params (mb @ toString v @ str ''&'') keys = Inr r"
    by (auto split: sum.splits)
  from "2.IH" [OF v rest] obtain vals where
    "map (\<lambda>(k, d). extract_key k d) (field_slots params keys) = map Inr vals"
    "r = (mb @ toString v @ str ''&'') @ render_fields vals"
    by blast
  then have "map (\<lambda>(k, d). extract_key k d) (field_slots params (Scalar k # keys)) = map Inr (v # vals) \<and>
     r = mb @ render_fields (v # vals)"
    using v by (simp add: render_fields_Cons)
  then show ?case by blast
next
  case (3 params mb g keys)
  from "3.prems" obtain items mb' where items: "list params = Some (Array items)"
    and first: "body_listItems mb g items = Inr mb'"
    and rest: "body_keys params mb' keys = Inr r"
    by (auto split: option.splits sum.splits listMember.splits)
  from body_listItems_Inr [OF first] obtain vs where
    vs: "map (\<lambda>(k, d). extract_key k d) (concat (map (\<lambda>item. map (\<lambda>k. (k, item)) g) items))
            = map Inr vs" "mb' = mb @ render_fields vs"
    by blast
  from "3.IH" [OF items refl first rest] obtain ws where
    ws: "map (\<lambda>(k, d). extract_key k d) (field_slots params keys) = map Inr ws"
      "r = mb' @ render_fields ws"
    by blast
  have "map (\<lambda>(k, d). extract_key k d) (field_slots params (Group g # keys)) = map Inr (vs @ ws) \<and>
     r = mb @ render_fields (vs @ ws)"
    using vs ws items by (simp add: list_items_def render_fields_append)
  then show ?case by blast
qed

lemma length_field_slots: "length (field_slots params keys) = entry_count params keys"
proof (induction params keys rule: field_slots.induct)
  case (3 params g keys)
  have "length (concat (map (\<lambda>item. map (\<lambda>k. (k, item)) g) items)) = length items * length g" for items :: "jsobject list"
    by (induction items) simp_all
  with 3 show ?case by simp
qed simp_all

lemma decode_fields_step:
  "38 \<notin> set s \<Longrightarrow> decode_fields field (s @ 38 # rest) = (field @ s) # decode_fields [] rest"
  by (induction s arbitrary: field) simp_all

lemma decode_render_fields:
  "\<forall>v \<in> set vals. 38 \<notin> set (toString v) \<Longrightarrow>
   decode_fields [] (render_fields vals) = map toString vals"
proof (induction vals)
  case Nil
  then show ?case by (simp add: render_fields_Nil)
next
  case (Cons v vals)
  then have "38 \<notin> set (toString v)" by simp
  from decode_fields_step [OF this, of "[]" "render_fields vals"] Cons show ?case
    by (simp add: render_fields_Cons str_def)
qed

lemma count_amp_render_fields:
  "length (filter (\<lambda>c. c = 38) (render_fields vals)) =
     length vals + length (filter (\<lambda>c. c = 38) (concat (map toString vals)))"
  by (induction vals) (simp_all add: render_fields_Nil render_fields_Cons str_def)

lemma body_keys_append:
  "body_keys params mb (pre @ post) =
     (case body_keys params mb pre of Inl e \<Rightarrow> Inl e | Inr mb' \<Rightarrow> body_keys params mb' post)"
  by (induction params mb pre rule: body_keys.induct)
    (auto split: sum.splits option.splits listMember.splits)









lemma body_keys_not_iterable:
  "\<not> list_iterable params \<Longrightarrow> body_keys params mb (Group g # keys) = Inl TypeError"
  by (auto simp: list_iterable_def split: option.splits listMember.splits)

lemma sample_body_group:
  "body_keys \<lparr>own = [str ''amt'' \<mapsto> JString (str ''500'')],
              list = Some (Array [[str ''qty'' \<mapsto> JNumber 1, str ''name'' \<mapsto> JString (str ''ab'')],
                                  [str ''qty'' \<mapsto> JString (str ''22'')]])\<rparr> []
     [Scalar amt, Group [qty, name_k]] = Inr (str ''500&1&ab&22&N/A&'')"
  by (simp add: amt_def qty_def name_k_def extract_key_def str_def digits_only_def is_digit_def
      digits_of.simps)

section \<open>The getters of a constructed message\<close>

lemma get_messageBody_cached:
  assumes "request api (priv_functionCode m) = Some kd"
    and "body_keys (priv_paramsList m) [] kd = Inr b"
    and "priv_messageBody m = Some b"
  shows "get_messageBody api m = Inr (b, m)"
  using assms by (cases b) (simp_all add: get_messageBody_def composeMessageBody_def)

lemma new_RegulatoryMessage_fields:
  assumes "new_RegulatoryMessage api now1 now2 config clientLogId functionCode params = Inr m"
  shows "priv_functionCode m = functionCode"
    and "priv_paramsList m = params"
    and "priv_clientConfig m = config"
    and "\<exists>kd b. request api functionCode = Some kd \<and> body_keys params [] kd = Inr b \<and>
           priv_messageBody m = Some b \<and> priv_messageBodyBuffer m = Some (gbkEncode api b)"
    and "\<exists>h. priv_messageHead m = Some h \<and> h \<noteq> []"
    and "\<exists>h. priv_networkHead m = Some h \<and> h \<noteq> []"
proof -
  show "priv_functionCode m = functionCode"
    using assms by (rule new_RegulatoryMessage_Inr) simp
  show "priv_paramsList m = params"
    using assms by (rule new_RegulatoryMessage_Inr) simp
  show "priv_clientConfig m = config"
    using assms by (rule new_RegulatoryMessage_Inr) simp
  show "\<exists>kd b. request api functionCode = Some kd \<and> body_keys params [] kd = Inr b \<and>
           priv_messageBody m = Some b \<and> priv_messageBodyBuffer m = Some (gbkEncode api b)"
    using assms by (rule new_RegulatoryMessage_Inr) simp
  show "\<exists>h. priv_messageHead m = Some h \<and> h \<noteq> []"
    using assms by (rule new_RegulatoryMessage_Inr) (simp add: spaces_42_nonempty)
  show "\<exists>h. priv_networkHead m = Some h \<and> h \<noteq> []"
    using assms by (rule new_RegulatoryMessage_Inr) (simp add: str_def)
qed

lemma composeMessageHead_nonempty:
  "priv_messageBodyBuffer m = Some buf \<Longrightarrow> fst (projr (composeMessageHead api now m)) \<noteq> []"
  by (simp add: composeMessageHead_cached spaces_42_nonempty)

lemma composeNetworkHead_nonempty:
  "priv_messageBodyBuffer m = Some buf \<Longrightarrow> fst (projr (composeNetworkHead api now m)) \<noteq> []"
  by (simp add: composeNetworkHead_cached str_def)

lemma messageHead_differs:
  assumes "priv_messageBodyBuffer m = Some buf"
    and "dateFormat api now (dateTimeFormat (priv_clientConfig m)) = [a]"
    and "dateFormat api now' (dateTimeFormat (priv_clientConfig m)) = [b]"
    and "a \<noteq> b"
  shows "fst (projr (composeMessageHead api now m)) \<noteq>
         fst (projr (composeMessageHead api now' (m\<lparr>priv_messageHead := x\<rparr>)))"
  using assms by (simp add: composeMessageHead_cached)

lemma networkHead_differs:
  assumes "priv_messageBodyBuffer m = Some buf"
    and "dateFormat api now (dateTimeFormat (priv_clientConfig m)) = [a]"
    and "dateFormat api now' (dateTimeFormat (priv_clientConfig m)) = [b]"
    and "a \<noteq> b"
  shows "fst (projr (composeNetworkHead api now m)) \<noteq>
         fst (projr (composeNetworkHead api now' (m\<lparr>priv_networkHead := x\<rparr>)))"
  using assms by (simp add: composeNetworkHead_cached)

lemma body_getters_idempotent:
  assumes "new_RegulatoryMessage api now1 now2 config clientLogId functionCode params = Inr m"
  shows "\<exists>b. get_messageBody api m = Inr (b, m) \<and>
             get_messageBodyBuffer api m = Inr (gbkEncode api b, m)"
proof -
  note f = new_RegulatoryMessage_fields [OF assms]
  from f(4) obtain kd b where kd: "request api functionCode = Some kd"
    and b: "body_keys params [] kd = Inr b" and mb: "priv_messageBody m = Some b"
    and buf: "priv_messageBodyBuffer m = Some (gbkEncode api b)"
    by blast
  have "get_messageBody api m = Inr (b, m)"
    using get_messageBody_cached [of api m kd b] kd b mb by (simp add: f)
  moreover have "get_messageBodyBuffer api m = Inr (gbkEncode api b, m)"
    using buf by (rule get_messageBodyBuffer_cached)
  ultimately show ?thesis by blast
qed

section \<open>Unknown function codes\<close>

text \<open>
  C3. For every function code without a schema in the request table, constructing a
  \<open>RegulatoryMessage\<close> fails with the error "Pingan Invalid Function Code", whatever
  the parameter set, the configuration and the clock are: the check comes before any body
  or header is built, and the result is the error alone, with no message object.
\<close>

theorem unknown_function_code:
  assumes "request api functionCode = None"
  shows "new_RegulatoryMessage api now1 now2 config clientLogId functionCode params =
           Inl (Error invalid_function_code_message)"
  using assms by (simp add: new_RegulatoryMessage_def)

text \<open>A table that knows 0001 only, asked for 9999.\<close>

theorem unknown_function_code_witness:
  "request (sample_env [str ''0001'' \<mapsto> [Scalar amt]]) (str ''9999'') = None \<and>
   new_RegulatoryMessage (sample_env [str ''0001'' \<mapsto> [Scalar amt]]) 1 2 sample_config
      (JString (str ''42'')) (str ''9999'') \<lparr>own = Map.empty, list = None\<rparr> =
     Inl (Error invalid_function_code_message)"
proof -
  have h: "request (sample_env [str ''0001'' \<mapsto> [Scalar amt]]) (str ''9999'') = None"
    by (simp add: sample_env_def str_def)
  show ?thesis
    using h unknown_function_code [OF h] by simp
qed

section \<open>The client log id\<close>

text \<open>
  C7. For every constructed \<open>RegulatoryMessage\<close>, the stored client log id has exactly
  20 characters: a shorter id is left-padded with the character 0, a longer one is cut to
  its trailing 20 characters, and an id of 20 characters is kept as it is.
\<close>

theorem clientLogId_twenty:
  assumes "new_RegulatoryMessage api now1 now2 config clientLogId functionCode params = Inr m"
  shows "length (priv_clientLogId m) = 20 \<and>
         (length (toString clientLogId) < 20 \<longrightarrow>
            priv_clientLogId m =
              replicate (20 - length (toString clientLogId)) 48 @ toString clientLogId) \<and>
         (length (toString clientLogId) > 20 \<longrightarrow>
            priv_clientLogId m =
              drop (length (toString clientLogId) - 20) (toString clientLogId)) \<and>
         (length (toString clientLogId) = 20 \<longrightarrow> priv_clientLogId m = toString clientLogId)"
proof -
  from assms have "priv_clientLogId m = padString clientLogId 20 (Some (str ''0''))"
    by (rule new_RegulatoryMessage_Inr) simp
  then show ?thesis
    by (simp add: padString_eq Let_def str_def)
qed

text \<open>An id of 2, of 25 and of 20 characters.\<close>

theorem clientLogId_twenty_witness:
  "\<exists>m1 m2 m3.
     new_RegulatoryMessage (sample_env [str ''0001'' \<mapsto> [Scalar amt]]) 1 2 sample_config
        (JString (str ''42'')) (str ''0001'')
        \<lparr>own = [str ''amt'' \<mapsto> JString (str ''500'')], list = None\<rparr> = Inr m1 \<and>
     priv_clientLogId m1 = str ''00000000000000000042'' \<and>
     new_RegulatoryMessage (sample_env [str ''0001'' \<mapsto> [Scalar amt]]) 1 2 sample_config
        (JString (str ''ABCDEXXXXXXXXXXXXXXXXXXXX'')) (str ''0001'')
        \<lparr>own = [str ''amt'' \<mapsto> JString (str ''500'')], list = None\<rparr> = Inr m2 \<and>
     priv_clientLogId m2 = str ''XXXXXXXXXXXXXXXXXXXX'' \<and>
     new_RegulatoryMessage (sample_env [str ''0001'' \<mapsto> [Scalar amt]]) 1 2 sample_config
        (JString (str ''12345678901234567890'')) (str ''0001'')
        \<lparr>own = [str ''amt'' \<mapsto> JString (str ''500'')], list = None\<rparr> = Inr m3 \<and>
     priv_clientLogId m3 = str ''12345678901234567890''"
proof -
  let ?new = "\<lambda>logId. new_RegulatoryMessage (sample_env [str ''0001'' \<mapsto> [Scalar amt]]) 1 2
     sample_config logId (str ''0001'')
     \<lparr>own = [str ''amt'' \<mapsto> JString (str ''500'')], list = None\<rparr>"
  obtain m1 where m1: "?new (JString (str ''42'')) = Inr m1"
    using new_RegulatoryMessage_succeeds [OF sample_request_0001 sample_body_500] by blast
  obtain m2 where m2: "?new (JString (str ''ABCDEXXXXXXXXXXXXXXXXXXXX'')) = Inr m2"
    using new_RegulatoryMessage_succeeds [OF sample_request_0001 sample_body_500] by blast
  obtain m3 where m3: "?new (JString (str ''12345678901234567890'')) = Inr m3"
    using new_RegulatoryMessage_succeeds [OF sample_request_0001 sample_body_500] by blast
  have "priv_clientLogId m1 = str ''00000000000000000042''"
    using clientLogId_twenty [OF m1] by (simp add: str_def replicate_numeral_unfold)
  moreover have "priv_clientLogId m2 = str ''XXXXXXXXXXXXXXXXXXXX''"
    using clientLogId_twenty [OF m2] by (simp add: str_def)
  moreover have "priv_clientLogId m3 = str ''12345678901234567890''"
    using clientLogId_twenty [OF m3] by (simp add: str_def)
  ultimately show ?thesis using m1 m2 m3 by blast
qed

section \<open>The length fields of the headers\<close>

text \<open>
  C1. For every constructed \<open>RegulatoryMessage\<close>: the stored body is what
  \<open>composeMessageBody\<close> returns for the stored inputs, the stored buffer is its GBK
  encoding, and the message header and the network header hold, at their place in the
  concatenation, \<open>padString\<close> of the byte length of that buffer at width 8 and at
  width 10 with fill 0. Each field has exactly its width, holds digits only, and denotes
  the byte length modulo \<open>10^8\<close> and \<open>10^10\<close> (the length itself when it fits, its
  trailing digits otherwise). The headers that the getters compose later carry the same
  two fields.
\<close>

theorem header_length_fields:
  assumes "new_RegulatoryMessage api now1 now2 config clientLogId functionCode params = Inr m"
  shows "\<exists>body len8 len10.
     priv_functionCode m = functionCode \<and> priv_paramsList m = params \<and>
     priv_messageBody m = Some body \<and>
     composeMessageBody api m = Inr body \<and>
     priv_messageBodyBuffer m = Some (gbkEncode api body) \<and>
     len8 = padString (JNumber (length (gbkEncode api body))) 8 (Some (str ''0'')) \<and>
     len10 = padString (JNumber (length (gbkEncode api body))) 10 (Some (str ''0'')) \<and>
     length len8 = 8 \<and> list_all is_digit len8 \<and>
     decimal_value len8 = length (gbkEncode api body) mod 10 ^ 8 \<and>
     length len10 = 10 \<and> list_all is_digit len10 \<and>
     decimal_value len10 = length (gbkEncode api body) mod 10 ^ 10 \<and>
     priv_messageHead m = Some
       (functionCode @ serviceType config @ macAddress config
        @ dateFormat api now1 (dateTimeFormat config)
        @ defaultResponseCode config @ array_join 43 (str '' '') @ conFlag config
        @ len8
        @ countId config @ priv_clientLogId m @ marketId config) \<and>
     priv_networkHead m = Some
       (str ''A001130101'' @ marketId config @ str ''                ''
        @ len10
        @ str ''000000'' @ countId config @ serviceType config
        @ dateFormat api now2 (dateTimeFormat config)
        @ priv_clientLogId m
        @ defaultResponseCode config @ array_join 101 (str '' '')
        @ conFlag config @ str ''000'' @ str ''0'' @ str ''0''
        @ array_join 13 (str '' '') @ array_join 12 (str ''0'')) \<and>
     (\<forall>now. \<exists>m'. get_messageHead api now m = Inr (Some
       (functionCode @ serviceType config @ macAddress config
        @ dateFormat api now (dateTimeFormat config)
        @ defaultResponseCode config @ array_join 43 (str '' '') @ conFlag config
        @ len8
        @ countId config @ priv_clientLogId m @ marketId config), m')) \<and>
     (\<forall>now. \<exists>m'. get_networkHead api now m = Inr (Some
       (str ''A001130101'' @ marketId config @ str ''                ''
        @ len10
        @ str ''000000'' @ countId config @ serviceType config
        @ dateFormat api now (dateTimeFormat config)
        @ priv_clientLogId m
        @ defaultResponseCode config @ array_join 101 (str '' '')
        @ conFlag config @ str ''000'' @ str ''0'' @ str ''0''
        @ array_join 13 (str '' '') @ array_join 12 (str ''0'')), m'))"
proof -
  from assms obtain kd b where kd: "request api functionCode = Some kd"
    and b: "body_keys params [] kd = Inr b"
    and m: "m = \<lparr>priv_clientConfig = config,
                    priv_clientLogId = padString clientLogId 20 (Some (str ''0'')),
                    priv_functionCode = functionCode,
                    priv_paramsList = params,
                    priv_messageBody = Some b,
                    priv_messageBodyBuffer = Some (gbkEncode api b),
                    priv_messageHead = Some
                      (functionCode @ serviceType config @ macAddress config
                       @ dateFormat api now1 (dateTimeFormat config)
                       @ defaultResponseCode config @ array_join 43 (str '' '')
                       @ conFlag config
                       @ padString (JNumber (length (gbkEncode api b))) 8 (Some (str ''0''))
                       @ countId config
                       @ padString clientLogId 20 (Some (str ''0''))
                       @ marketId config),
                    priv_networkHead = Some
                      (str ''A001130101'' @ marketId config @ str ''                ''
                       @ padString (JNumber (length (gbkEncode api b))) 10 (Some (str ''0''))
                       @ str ''000000'' @ countId config @ serviceType config
                       @ dateFormat api now2 (dateTimeFormat config)
                       @ padString clientLogId 20 (Some (str ''0''))
                       @ defaultResponseCode config @ array_join 101 (str '' '')
                       @ conFlag config @ str ''000'' @ str ''0'' @ str ''0''
                       @ array_join 13 (str '' '') @ array_join 12 (str ''0''))\<rparr>"
    by (rule new_RegulatoryMessage_Inr)
  have body: "composeMessageBody api m = Inr b"
    using kd b by (simp add: composeMessageBody_def m)
  have buf: "priv_messageBodyBuffer m = Some (gbkEncode api b)"
    by (simp add: m)
  have mh: "\<exists>h. priv_messageHead m = Some h \<and> h \<noteq> []"
    using spaces_42_nonempty by (simp add: m)
  have nh: "\<exists>h. priv_networkHead m = Some h \<and> h \<noteq> []"
    by (simp add: m str_def)
  have g1: "\<exists>m'. get_messageHead api now m = Inr (Some
       (functionCode @ serviceType config @ macAddress config
        @ dateFormat api now (dateTimeFormat config)
        @ defaultResponseCode config @ array_join 43 (str '' '') @ conFlag config
        @ padString (JNumber (length (gbkEncode api b))) 8 (Some (str ''0''))
        @ countId config @ priv_clientLogId m @ marketId config), m')" for now
  proof -
    from mh obtain h where h: "priv_messageHead m = Some h" "h \<noteq> []" by blast
    show ?thesis
      unfolding get_messageHead_recompute [OF buf h] composeMessageHead_cached [OF buf]
      by (simp add: m)
  qed
  have g2: "\<exists>m'. get_networkHead api now m = Inr (Some
       (str ''A001130101'' @ marketId config @ str ''                ''
        @ padString (JNumber (length (gbkEncode api b))) 10 (Some (str ''0''))
        @ str ''000000'' @ countId config @ serviceType config
        @ dateFormat api now (dateTimeFormat config)
        @ priv_clientLogId m
        @ defaultResponseCode config @ array_join 101 (str '' '')
        @ conFlag config @ str ''000'' @ str ''0'' @ str ''0''
        @ array_join 13 (str '' '') @ array_join 12 (str ''0'')), m')" for now
  proof -
    from nh obtain h where h: "priv_networkHead m = Some h" "h \<noteq> []" by blast
    show ?thesis
      unfolding get_networkHead_recompute [OF buf h] composeNetworkHead_cached [OF buf]
      by (simp add: m)
  qed
  have stored: "priv_functionCode m = functionCode" "priv_paramsList m = params"
    "priv_messageBody m = Some b"
    "priv_messageHead m = Some
       (functionCode @ serviceType config @ macAddress config
        @ dateFormat api now1 (dateTimeFormat config)
        @ defaultResponseCode config @ array_join 43 (str '' '') @ conFlag config
        @ padString (JNumber (length (gbkEncode api b))) 8 (Some (str ''0''))
        @ countId config @ priv_clientLogId m @ marketId config)"
    "priv_networkHead m = Some
       (str ''A001130101'' @ marketId config @ str ''                ''
        @ padString (JNumber (length (gbkEncode api b))) 10 (Some (str ''0''))
        @ str ''000000'' @ countId config @ serviceType config
        @ dateFormat api now2 (dateTimeFormat config)
        @ priv_clientLogId m
        @ defaultResponseCode config @ array_join 101 (str '' '')
        @ conFlag config @ str ''000'' @ str ''0'' @ str ''0''
        @ array_join 13 (str '' '') @ array_join 12 (str ''0''))"
    by (simp_all add: m)
  show ?thesis
    apply (rule exI [of _ b])
    apply (rule exI [of _ "padString (JNumber (length (gbkEncode api b))) 8 (Some (str ''0''))"])
    apply (rule exI [of _ "padString (JNumber (length (gbkEncode api b))) 10 (Some (str ''0''))"])
    using body buf stored g1 g2 padString_number [of "length (gbkEncode api b)" 8]
      padString_number [of "length (gbkEncode api b)" 10]
    apply (intro conjI allI)
                    apply (simp_all only: refl)
    done
qed

text \<open>A body of three characters and five bytes: both fields read 5.\<close>

theorem header_length_fields_witness:
  "\<exists>m. new_RegulatoryMessage (sample_env [str ''0001'' \<mapsto> [Scalar name_k]]) 1 2 sample_config
          (JString (str ''42'')) (str ''0001'')
          \<lparr>own = [str ''name'' \<mapsto> JString [0x4E2D, 0x6587]], list = None\<rparr> = Inr m \<and>
        priv_messageBody m = Some [0x4E2D, 0x6587, 0x26] \<and>
        priv_messageBodyBuffer m = Some [0xD6, 0xD0, 0xCE, 0xC4, 0x26] \<and>
        priv_messageHead m = Some
          (str ''0001'' @ str ''01'' @ str ''                '' @ str ''1'' @ str ''999999''
           @ replicate 42 32 @ str ''0'' @ str ''00000005'' @ str ''PA001''
           @ str ''00000000000000000042'' @ str ''3351'') \<and>
        priv_networkHead m = Some
          (str ''A001130101'' @ str ''3351'' @ str ''                '' @ str ''0000000005''
           @ str ''000000'' @ str ''PA001'' @ str ''01'' @ str ''2''
           @ str ''00000000000000000042'' @ str ''999999'' @ replicate 100 32 @ str ''0''
           @ str ''000'' @ str ''0'' @ str ''0'' @ replicate 12 32 @ replicate 11 48)"
proof -
  let ?api = "sample_env [str ''0001'' \<mapsto> [Scalar name_k]]"
  let ?params = "\<lparr>own = [str ''name'' \<mapsto> JString [0x4E2D, 0x6587]], list = None\<rparr>"
  obtain m where m: "new_RegulatoryMessage ?api 1 2 sample_config (JString (str ''42''))
      (str ''0001'') ?params = Inr m"
    using new_RegulatoryMessage_succeeds [OF sample_request_0001 sample_body_name] by blast
  have logid: "priv_clientLogId m = str ''00000000000000000042''"
    using new_RegulatoryMessage_logId [OF m] padString_42 by simp
  from header_length_fields [OF m] obtain body len8 len10 where
    fc: "priv_functionCode m = str ''0001''" and ps: "priv_paramsList m = ?params"
    and b1: "priv_messageBody m = Some body" and b2: "composeMessageBody ?api m = Inr body"
    and b3: "priv_messageBodyBuffer m = Some (gbkEncode ?api body)"
    and l8: "len8 = padString (JNumber (length (gbkEncode ?api body))) 8 (Some (str ''0''))"
    and l10: "len10 = padString (JNumber (length (gbkEncode ?api body))) 10 (Some (str ''0''))"
    and mh: "priv_messageHead m = Some
       (str ''0001'' @ serviceType sample_config @ macAddress sample_config
        @ dateFormat ?api 1 (dateTimeFormat sample_config)
        @ defaultResponseCode sample_config @ array_join 43 (str '' '') @ conFlag sample_config
        @ len8
        @ countId sample_config @ priv_clientLogId m @ marketId sample_config)"
    and nh: "priv_networkHead m = Some
       (str ''A001130101'' @ marketId sample_config @ str ''                ''
        @ len10
        @ str ''000000'' @ countId sample_config @ serviceType sample_config
        @ dateFormat ?api 2 (dateTimeFormat sample_config)
        @ priv_clientLogId m
        @ defaultResponseCode sample_config @ array_join 101 (str '' '')
        @ conFlag sample_config @ str ''000'' @ str ''0'' @ str ''0''
        @ array_join 13 (str '' '') @ array_join 12 (str ''0''))"
    by (elim exE conjE) (rule that)
  have body: "body = [0x4E2D, 0x6587, 0x26]"
    using b2 sample_body_name by (simp add: composeMessageBody_def fc ps sample_env_def)
  have enc: "gbkEncode ?api body = [0xD6, 0xD0, 0xCE, 0xC4, 0x26]"
    by (simp add: body sample_env_def gbk_fragment_def)
  have len8: "len8 = str ''00000005''"
    unfolding l8 enc by (simp add: padString_eq str_def digits_of.simps replicate_numeral_unfold)
  have len10: "len10 = str ''0000000005''"
    unfolding l10 enc by (simp add: padString_eq str_def digits_of.simps replicate_numeral_unfold)
  have date: "dateFormat ?api 1 f = str ''1''" "dateFormat ?api 2 f = str ''2''" for f
    by (simp_all add: sample_env_def digits_of.simps str_def)
  have joins: "array_join 43 (str '' '') = replicate 42 32"
    "array_join 101 (str '' '') = replicate 100 32"
    "array_join 13 (str '' '') = replicate 12 32"
    "array_join 12 (str ''0'') = replicate 11 48"
    by (simp_all add: str_def array_join_single)
  have "priv_messageHead m = Some
          (str ''0001'' @ str ''01'' @ str ''                '' @ str ''1'' @ str ''999999''
           @ replicate 42 32 @ str ''0'' @ str ''00000005'' @ str ''PA001''
           @ str ''00000000000000000042'' @ str ''3351'')"
    unfolding mh len8 logid date joins by (simp add: sample_config_def)
  moreover have "priv_networkHead m = Some
          (str ''A001130101'' @ str ''3351'' @ str ''                '' @ str ''0000000005''
           @ str ''000000'' @ str ''PA001'' @ str ''01'' @ str ''2''
           @ str ''00000000000000000042'' @ str ''999999'' @ replicate 100 32 @ str ''0''
           @ str ''000'' @ str ''0'' @ str ''0'' @ replicate 12 32 @ replicate 11 48)"
    unfolding nh len10 logid date joins by (simp add: sample_config_def)
  ultimately show ?thesis
    using m b1 b3 body enc by auto
qed

section \<open>The body is the concatenation of the extracted values\<close>

text \<open>
  C2, as the code has it. For every schema and parameter set on which body building
  succeeds, the body is the concatenation, in schema order, of one extracted value per
  scalar descriptor and, for each repeating group, one per sub-descriptor per entry of the
  list, each value (the last too) followed by exactly one \<open>&\<close>; the number of values is
  the number of scalar entries plus the number of expanded group entries. The number of
  \<open>&\<close> characters in the body is that number plus the number of \<open>&\<close> inside the
  values, which are not escaped: when no value contains \<open>&\<close>, decoding the body gives
  back exactly the values, and the number of \<open>&\<close>-delimited fields is the number of
  entries.
\<close>

theorem body_is_concatenation:
  assumes "body_keys params [] keyDictionary = Inr body"
  shows "\<exists>vals.
     map (\<lambda>(k, d). extract_key k d) (field_slots params keyDictionary) = map Inr vals \<and>
     body = render_fields vals \<and>
     length vals = entry_count params keyDictionary \<and>
     length (filter (\<lambda>c. c = 38) body) =
       entry_count params keyDictionary
       + length (filter (\<lambda>c. c = 38) (concat (map toString vals))) \<and>
     ((\<forall>v \<in> set vals. 38 \<notin> set (toString v)) \<longrightarrow>
        decode_fields [] body = map toString vals \<and>
        length (decode_fields [] body) = entry_count params keyDictionary)"
proof -
  from body_keys_Inr [OF assms] obtain vals where
    vals: "map (\<lambda>(k, d). extract_key k d) (field_slots params keyDictionary) = map Inr vals"
    and body: "body = render_fields vals"
    by auto
  have "length (map (\<lambda>(k, d). extract_key k d) (field_slots params keyDictionary)) =
          length (map Inr vals :: (error + jsval) list)"
    using vals by simp
  then have len: "length vals = entry_count params keyDictionary"
    by (simp add: length_field_slots)
  have amp: "length (filter (\<lambda>c. c = 38) body) =
       entry_count params keyDictionary
       + length (filter (\<lambda>c. c = 38) (concat (map toString vals)))"
    unfolding body count_amp_render_fields len ..
  have dec: "decode_fields [] body = map toString vals \<and>
        length (decode_fields [] body) = entry_count params keyDictionary"
    if "\<forall>v \<in> set vals. 38 \<notin> set (toString v)"
    using decode_render_fields [OF that] len by (simp add: body)
  from vals body len amp dec show ?thesis by blast
qed

text \<open>A scalar and a group of two descriptors over a list of two entries: five fields.\<close>

theorem body_is_concatenation_witness:
  "body_keys \<lparr>own = [str ''amt'' \<mapsto> JString (str ''500'')],
              list = Some (Array [[str ''qty'' \<mapsto> JNumber 1, str ''name'' \<mapsto> JString (str ''ab'')],
                                  [str ''qty'' \<mapsto> JString (str ''22'')]])\<rparr> []
     [Scalar amt, Group [qty, name_k]] = Inr (str ''500&1&ab&22&N/A&'') \<and>
   decode_fields [] (str ''500&1&ab&22&N/A&'') =
     [str ''500'', str ''1'', str ''ab'', str ''22'', str ''N/A''] \<and>
   length (decode_fields [] (str ''500&1&ab&22&N/A&'')) = 5"
proof -
  let ?params = "\<lparr>own = [str ''amt'' \<mapsto> JString (str ''500'')],
              list = Some (Array [[str ''qty'' \<mapsto> JNumber 1, str ''name'' \<mapsto> JString (str ''ab'')],
                                  [str ''qty'' \<mapsto> JString (str ''22'')]])\<rparr>"
  let ?keys = "[Scalar amt, Group [qty, name_k]]"
  from body_is_concatenation [OF sample_body_group] obtain vals where
    vals: "map (\<lambda>(k, d). extract_key k d) (field_slots ?params ?keys) = map Inr vals"
    and dec: "(\<forall>v \<in> set vals. 38 \<notin> set (toString v)) \<longrightarrow>
        decode_fields [] (str ''500&1&ab&22&N/A&'') = map toString vals \<and>
        length (decode_fields [] (str ''500&1&ab&22&N/A&'')) = entry_count ?params ?keys"
    by blast
  have slots: "map (\<lambda>(k, d). extract_key k d) (field_slots ?params ?keys) =
     map Inr [JString (str ''500''), JNumber 1, JString (str ''ab''), JString (str ''22''),
              JString (str ''N/A'')]"
    by (simp add: list_items_def amt_def qty_def name_k_def extract_key_def str_def
        digits_only_def is_digit_def digits_of.simps)
  have "inj (Inr :: jsval \<Rightarrow> error + jsval)" by (simp add: inj_def)
  then have v: "vals = [JString (str ''500''), JNumber 1, JString (str ''ab''), JString (str ''22''),
              JString (str ''N/A'')]"
    using vals unfolding slots by (simp only: inj_map_eq_map)
  have clean: "\<forall>v \<in> set vals. 38 \<notin> set (toString v)"
    unfolding v by (simp add: str_def digits_of.simps)
  have ec: "entry_count ?params ?keys = 5"
    by (simp add: list_items_def)
  from dec clean have "decode_fields [] (str ''500&1&ab&22&N/A&'') = map toString vals"
    and "length (decode_fields [] (str ''500&1&ab&22&N/A&'')) = entry_count ?params ?keys"
    by blast+
  then have "decode_fields [] (str ''500&1&ab&22&N/A&'') = map toString vals"
    "length (decode_fields [] (str ''500&1&ab&22&N/A&'')) = 5"
    unfolding ec by blast+
  moreover have "map toString vals = [str ''500'', str ''1'', str ''ab'', str ''22'', str ''N/A'']"
    unfolding v by (simp add: digits_of.simps str_def)
  ultimately show ?thesis
    using sample_body_group by simp
qed

text \<open>
  The claim as stated, with the number of \<open>&\<close>-delimited fields equal to the number of
  entries for every body, fails where a value holds the delimiter: one scalar entry with
  the value \<open>a&b\<close> gives the body \<open>a&b&\<close>, which decodes to two fields.
\<close>

theorem ampersand_in_value_counterexample:
  "body_keys \<lparr>own = [str ''name'' \<mapsto> JString (str ''a&b'')], list = None\<rparr> []
     [Scalar name_k] = Inr (str ''a&b&'') \<and>
   entry_count \<lparr>own = [str ''name'' \<mapsto> JString (str ''a&b'')], list = None\<rparr>
     [Scalar name_k] = 1 \<and>
   decode_fields [] (str ''a&b&'') = [str ''a'', str ''b''] \<and>
   length (decode_fields [] (str ''a&b&'')) = 2"
  by (simp add: name_k_def extract_key_def str_def)

section \<open>Defaults of absent optional fields\<close>




section \<open>The message of a missing required key\<close>

text \<open>
  C5. A required key absent from the parameter set makes the constructor fail with the
  missing-key error, whose message is meant to name the key and the function code. The
  source writes the message between single quotes, so the placeholders are not replaced:
  for the key \<open>amt\<close> of function 0001 and for the key \<open>qty\<close> of function 0002 the
  message is the same text, and it names neither; \<open>extract\<close> gives that text for every
  required key that is absent.
\<close>

theorem missing_key_message_literal:
  "new_RegulatoryMessage (sample_env [str ''0001'' \<mapsto> [Scalar amt]]) 1 2 sample_config
      (JString (str ''42'')) (str ''0001'') \<lparr>own = Map.empty, list = None\<rparr> =
     Inl (Error (str ''[PINGAN] Missing key ${keyObject.key} for function ${self._functionCode}'')) \<and>
   new_RegulatoryMessage (sample_env [str ''0002'' \<mapsto> [Scalar qty]]) 1 2 sample_config
      (JString (str ''42'')) (str ''0002'') \<lparr>own = Map.empty, list = None\<rparr> =
     Inl (Error (str ''[PINGAN] Missing key ${keyObject.key} for function ${self._functionCode}'')) \<and>
   (\<forall>k. extract_key (k\<lparr>required := True\<rparr>) Map.empty =
     Inl (Error (str ''[PINGAN] Missing key ${keyObject.key} for function ${self._functionCode}'')))"
  by (simp add: new_RegulatoryMessage_eq sample_env_def amt_def qty_def extract_key_def
      missing_key_message_def str_def)

section \<open>Overflow of a field\<close>




section \<open>A repeating group without a list\<close>

text \<open>
  C10 as stated fails where an entry before the group already throws: with a required
  scalar key missing and no list, the constructor fails with the missing-key error, not
  with the runtime's TypeError.
\<close>

theorem earlier_error_wins_counterexample:
  "new_RegulatoryMessage (sample_env [str ''0001'' \<mapsto> [Scalar amt, Group [qty]]]) 1 2
      sample_config (JString (str ''42'')) (str ''0001'') \<lparr>own = Map.empty, list = None\<rparr> =
     Inl (Error missing_key_message) \<and>
   Inl (Error missing_key_message) \<noteq> (Inl TypeError :: error + message)"
  by (simp add: new_RegulatoryMessage_eq sample_env_def amt_def extract_key_def)

text \<open>
  C10, as the code has it. For every schema with a repeating group and every parameter set
  whose list member is absent or is not iterable, the constructor fails. The failure is
  the runtime's TypeError, none of the errors the code throws itself, when the entries
  before the group have been extracted; when one of them fails, the failure is that
  entry's error.
\<close>

theorem group_without_list:
  assumes "request api functionCode = Some (pre @ Group g # post)"
    and "\<not> list_iterable params"
  shows "(\<exists>e. new_RegulatoryMessage api now1 now2 config clientLogId functionCode params = Inl e) \<and>
         (\<forall>mb. body_keys params [] pre = Inr mb \<longrightarrow>
            new_RegulatoryMessage api now1 now2 config clientLogId functionCode params =
              Inl TypeError) \<and>
         (\<forall>e. body_keys params [] pre = Inl e \<longrightarrow>
            new_RegulatoryMessage api now1 now2 config clientLogId functionCode params = Inl e)"
proof -
  have g: "body_keys params mb (Group g # post) = Inl TypeError" for mb
    using assms(2) by (rule body_keys_not_iterable)
  show ?thesis
    using assms(1)
    by (cases "body_keys params [] pre")
      (simp_all add: new_RegulatoryMessage_eq body_keys_append g del: body_keys.simps)
qed

text \<open>The scalar before the group is present; the list is absent, or it is a value
  that cannot be iterated.\<close>

theorem group_without_list_witness:
  "new_RegulatoryMessage (sample_env [str ''0001'' \<mapsto> [Scalar amt, Group [qty]]]) 1 2
      sample_config (JString (str ''42'')) (str ''0001'')
      \<lparr>own = [str ''amt'' \<mapsto> JString (str ''500'')], list = None\<rparr> = Inl TypeError \<and>
   new_RegulatoryMessage (sample_env [str ''0001'' \<mapsto> [Scalar amt, Group [qty]]]) 1 2
      sample_config (JString (str ''42'')) (str ''0001'')
      \<lparr>own = [str ''amt'' \<mapsto> JString (str ''500'')], list = Some NotIterable\<rparr> = Inl TypeError"
proof -
  let ?absent = "\<lparr>own = [str ''amt'' \<mapsto> JString (str ''500'')], list = None\<rparr>"
  let ?number = "\<lparr>own = [str ''amt'' \<mapsto> JString (str ''500'')], list = Some NotIterable\<rparr>"
  have r: "request (sample_env [str ''0001'' \<mapsto> [Scalar amt, Group [qty]]]) (str ''0001'') =
             Some ([Scalar amt] @ Group [qty] # [])"
    by (simp add: sample_env_def)
  have l: "\<not> list_iterable ?absent" "\<not> list_iterable ?number"
    by (simp_all add: list_iterable_def)
  have b: "body_keys ?number [] [Scalar amt] = Inr (str ''500&'')"
    by (simp add: amt_def extract_key_def str_def digits_only_def is_digit_def)
  from group_without_list [OF r l(1)] sample_body_500
  have 1: "new_RegulatoryMessage (sample_env [str ''0001'' \<mapsto> [Scalar amt, Group [qty]]]) 1 2
      sample_config (JString (str ''42'')) (str ''0001'') ?absent = Inl TypeError"
    by blast
  from group_without_list [OF r l(2)] b
  have 2: "new_RegulatoryMessage (sample_env [str ''0001'' \<mapsto> [Scalar amt, Group [qty]]]) 1 2
      sample_config (JString (str ''42'')) (str ''0001'') ?number = Inl TypeError"
    by blast
  from 1 2 show ?thesis by blast
qed

section \<open>Reading the headers twice\<close>

text \<open>
  C4. Reading an accessor of a constructed message twice should return the same bytes.
  The getters of the body and of its buffer do (\<open>body_getters_idempotent\<close>: they
  return the cached value and leave the object as it is). The getters of the two headers
  test the cached field the other way round and compose the header again on every read,
  with a new reading of the clock: for the message below, reading \<open>messageHead\<close> at
  the instants 3 and 4, and \<open>networkHead\<close> at 5 and 6, gives different headers.
\<close>

theorem header_getters_recompute:
  "\<exists>m h1 m1 h2 m2 n1 m3 n2 m4.
     new_RegulatoryMessage (sample_env [str ''0001'' \<mapsto> [Scalar amt]]) 1 2 sample_config
        (JString (str ''42'')) (str ''0001'')
        \<lparr>own = [str ''amt'' \<mapsto> JString (str ''500'')], list = None\<rparr> = Inr m \<and>
     get_messageBody (sample_env [str ''0001'' \<mapsto> [Scalar amt]]) m = Inr (str ''500&'', m) \<and>
     get_messageBodyBuffer (sample_env [str ''0001'' \<mapsto> [Scalar amt]]) m =
       Inr ([0x35, 0x30, 0x30, 0x26], m) \<and>
     get_messageHead (sample_env [str ''0001'' \<mapsto> [Scalar amt]]) 3 m = Inr (Some h1, m1) \<and>
     get_messageHead (sample_env [str ''0001'' \<mapsto> [Scalar amt]]) 4 m1 = Inr (Some h2, m2) \<and>
     h1 \<noteq> h2 \<and>
     get_networkHead (sample_env [str ''0001'' \<mapsto> [Scalar amt]]) 5 m2 = Inr (Some n1, m3) \<and>
     get_networkHead (sample_env [str ''0001'' \<mapsto> [Scalar amt]]) 6 m3 = Inr (Some n2, m4) \<and>
     n1 \<noteq> n2"
proof -
  let ?api = "sample_env [str ''0001'' \<mapsto> [Scalar amt]]"
  let ?params = "\<lparr>own = [str ''amt'' \<mapsto> JString (str ''500'')], list = None\<rparr>"
  obtain m where m: "new_RegulatoryMessage ?api 1 2 sample_config (JString (str ''42''))
      (str ''0001'') ?params = Inr m"
    using new_RegulatoryMessage_succeeds [OF sample_request_0001 sample_body_500] by blast
  note f = new_RegulatoryMessage_fields [OF m]
  from f(4) obtain kd b where kd: "request ?api (str ''0001'') = Some kd"
    and b: "body_keys ?params [] kd = Inr b" and mb: "priv_messageBody m = Some b"
    and buf: "priv_messageBodyBuffer m = Some (gbkEncode ?api b)"
    by blast
  have "kd = [Scalar amt]" using kd by (simp add: sample_env_def)
  with b sample_body_500 have b500: "b = str ''500&''" by simp
  have enc: "gbkEncode ?api b = [0x35, 0x30, 0x30, 0x26]"
    by (simp add: b500 sample_env_def gbk_fragment_def str_def)
  have g1: "get_messageBody ?api m = Inr (str ''500&'', m)"
    using get_messageBody_cached [of ?api m kd b] kd b mb by (simp add: f b500)
  have g2: "get_messageBodyBuffer ?api m = Inr ([0x35, 0x30, 0x30, 0x26], m)"
    using buf by (simp add: get_messageBodyBuffer_cached enc)
  have d: "dateFormat ?api 3 x = [51]" "dateFormat ?api 4 x = [52]"
    "dateFormat ?api 5 x = [53]" "dateFormat ?api 6 x = [54]" for x
    by (simp_all add: sample_env_def digits_of.simps)
  define h1 where "h1 = fst (projr (composeMessageHead ?api 3 m))"
  define m1 where "m1 = m\<lparr>priv_messageHead := Some h1\<rparr>"
  define h2 where "h2 = fst (projr (composeMessageHead ?api 4 m1))"
  define m2 where "m2 = m1\<lparr>priv_messageHead := Some h2\<rparr>"
  define n1 where "n1 = fst (projr (composeNetworkHead ?api 5 m2))"
  define m3 where "m3 = m2\<lparr>priv_networkHead := Some n1\<rparr>"
  define n2 where "n2 = fst (projr (composeNetworkHead ?api 6 m3))"
  define m4 where "m4 = m3\<lparr>priv_networkHead := Some n2\<rparr>"
  have buf1: "priv_messageBodyBuffer m1 = Some (gbkEncode ?api b)"
    and buf2: "priv_messageBodyBuffer m2 = Some (gbkEncode ?api b)"
    and buf3: "priv_messageBodyBuffer m3 = Some (gbkEncode ?api b)"
    using buf by (simp_all add: m1_def m2_def m3_def)
  from f(5) obtain h0 where h0: "priv_messageHead m = Some h0" "h0 \<noteq> []" by blast
  from f(6) obtain n0 where "priv_networkHead m = Some n0" "n0 \<noteq> []" by blast
  then have n0: "priv_networkHead m2 = Some n0" "n0 \<noteq> []"
    by (simp_all add: m1_def m2_def)
  have r1: "get_messageHead ?api 3 m = Inr (Some h1, m1)"
    unfolding h1_def m1_def by (rule get_messageHead_recompute [OF buf h0])
  have "priv_messageHead m1 = Some h1" "h1 \<noteq> []"
    using composeMessageHead_nonempty [OF buf] by (simp_all add: m1_def h1_def)
  then have r2: "get_messageHead ?api 4 m1 = Inr (Some h2, m2)"
    unfolding h2_def m2_def by (rule get_messageHead_recompute [OF buf1])
  have ne1: "h1 \<noteq> h2"
    unfolding h1_def h2_def m1_def
    by (rule messageHead_differs [OF buf d(1) d(2)]) simp
  have r3: "get_networkHead ?api 5 m2 = Inr (Some n1, m3)"
    unfolding n1_def m3_def by (rule get_networkHead_recompute [OF buf2 n0])
  have "priv_networkHead m3 = Some n1" "n1 \<noteq> []"
    using composeNetworkHead_nonempty [OF buf2] by (simp_all add: m3_def n1_def)
  then have r4: "get_networkHead ?api 6 m3 = Inr (Some n2, m4)"
    unfolding n2_def m4_def by (rule get_networkHead_recompute [OF buf3])
  have ne2: "n1 \<noteq> n2"
    unfolding n1_def n2_def m3_def
    by (rule networkHead_differs [OF buf2 d(3) d(4)]) simp
  from m g1 g2 r1 r2 ne1 r3 r4 ne2 show ?thesis by blast
qed

end
